theory Spec2Isabelle
  imports Complex_Main "HOL-Library.Word" "HOL-Library.AList"
begin

section \<open>Values the program takes from outside\<close>

text \<open>
  The module \<^verbatim>\<open>main.py\<close> is an in-memory attendance service. Three things come from
  outside its own code and are inputs of the model:
  \<^item> \<^verbatim>\<open>uuid.uuid4()\<close>, the default factory of every \<^verbatim>\<open>id\<close> field: each creating
    operation takes the identifier the factory returned as an argument \<open>uuid4\<close>;
  \<^item> \<^verbatim>\<open>datetime.datetime.utcnow()\<close>, the default factory of \<^verbatim>\<open>Attendance.timestamp\<close>:
    an argument \<open>utcnow\<close>;
  \<^item> \<^verbatim>\<open>geopy.distance.geodesic(c1, c2).meters\<close>: an argument \<open>geodesic\<close>, a function
    from two (latitude, longitude) pairs to meters. Nothing is assumed about it in what
    is proved of the endpoints; what is proved of the distance itself is about the
    great circle of the spec, \<open>great_circle\<close> below.

  Python floats are modelled as real numbers: there is no NaN, no infinity and no
  rounding error of the binary representation.
\<close>

type_synonym UUID = "128 word"

datatype datetime = datetime nat nat nat nat nat nat nat
  \<comment> \<open>year, month, day, hour, minute, second, microsecond; naive, in UTC\<close>

type_synonym geodesic = "real \<times> real \<Rightarrow> real \<times> real \<Rightarrow> real"

section \<open>Python's dict, str and round\<close>

text \<open>
  A \<^verbatim>\<open>dict\<close> keeps its keys in insertion order: an association list with distinct keys.
  \<^verbatim>\<open>d[k] = v\<close> replaces the value in place when the key is present and appends the pair
  otherwise, which is \<^const>\<open>AList.update\<close>.
\<close>

type_synonym ('k, 'v) dict = "('k \<times> 'v) list"

definition dict_get :: "('k, 'v) dict \<Rightarrow> 'k \<Rightarrow> 'v option" where
  "dict_get d k = map_of d k"

definition dict_contains :: "'k \<Rightarrow> ('k, 'v) dict \<Rightarrow> bool" where
  "dict_contains k d = (k \<in> set (map fst d))"

definition dict_setitem :: "('k, 'v) dict \<Rightarrow> 'k \<Rightarrow> 'v \<Rightarrow> ('k, 'v) dict" where
  "dict_setitem d k v = AList.update k v d"

definition dict_values :: "('k, 'v) dict \<Rightarrow> 'v list" where
  "dict_values d = map snd d"

definition digit_char :: "nat \<Rightarrow> char" where
  "digit_char d = ''0123456789abcdef'' ! d"

function str_nat :: "nat \<Rightarrow> string" where
  "str_nat n = (if n < 10 then [digit_char n] else str_nat (n div 10) @ [digit_char (n mod 10)])"
  by pat_completeness auto
termination
  by (relation "measure (\<lambda>n. n)") auto

definition str_int :: "int \<Rightarrow> string" where
  "str_int i = (if i < 0 then ''-'' @ str_nat (nat (- i)) else str_nat (nat i))"

text \<open>\<^verbatim>\<open>str(u)\<close> of a UUID: its 32 hexadecimal digits, grouped 8-4-4-4-12.\<close>

definition hex32 :: "UUID \<Rightarrow> string" where
  "hex32 u = map (\<lambda>i. digit_char (unat (and (drop_bit (4 * (31 - i)) u) 15))) [0..<32]"

definition str_UUID :: "UUID \<Rightarrow> string" where
  "str_UUID u = (let h = hex32 u in
     take 8 h @ ''-'' @ take 4 (drop 8 h) @ ''-'' @ take 4 (drop 12 h) @ ''-''
       @ take 4 (drop 16 h) @ ''-'' @ drop 20 h)"

text \<open>
  \<^verbatim>\<open>round(x, ndigits)\<close> and the format \<^verbatim>\<open>{x:.2f}\<close> both round the exact value of \<open>x\<close>
  to the nearest multiple of the unit, ties to the even multiple.
\<close>

definition round_half_even :: "real \<Rightarrow> int" where
  "round_half_even x =
     (let f = \<lfloor>x\<rfloor>; r = x - of_int f
      in if r < 1 / 2 then f else if 1 / 2 < r then f + 1 else if even f then f else f + 1)"

definition py_round :: "real \<Rightarrow> nat \<Rightarrow> real" where
  "py_round x ndigits = of_int (round_half_even (x * 10 ^ ndigits)) / 10 ^ ndigits"

definition format_2f :: "real \<Rightarrow> string" where
  "format_2f x =
     (let c = nat (round_half_even (\<bar>x\<bar> * 100))
      in (if x < 0 then ''-'' else '''') @ str_nat (c div 100) @ ''.''
           @ [digit_char (c mod 100 div 10), digit_char (c mod 10)])"

section \<open>Configuration and errors\<close>

definition MAX_CHECKIN_DISTANCE_METERS :: int where
  "MAX_CHECKIN_DISTANCE_METERS = 1000"

text \<open>
  \<open>ValidationError\<close> is pydantic's, with one message for each failing field in field
  order (the message of a ValueError raised by a validator is the one in the source);
  \<open>HTTPException\<close> carries \<^verbatim>\<open>status_code\<close> and \<^verbatim>\<open>detail\<close>.
\<close>

datatype error = ValidationError "string list" | HTTPException nat string

definition HTTP_400_BAD_REQUEST :: nat where "HTTP_400_BAD_REQUEST = 400"
definition HTTP_404_NOT_FOUND :: nat where "HTTP_404_NOT_FOUND = 404"
definition HTTP_409_CONFLICT :: nat where "HTTP_409_CONFLICT = 409"

section \<open>The models\<close>

record GeoPoint =
  type :: string
  coordinates :: "real \<times> real"  \<comment> \<open>(longitude, latitude)\<close>

record OrganizationBase =
  name :: string
  location :: GeoPoint

record Organization = OrganizationBase +
  id :: UUID

record EmployeeBase =
  name :: string
  organization_id :: UUID

record Employee = EmployeeBase +
  id :: UUID

record AttendanceBase =
  employee_id :: UUID
  location :: GeoPoint

record Attendance = AttendanceBase +
  id :: UUID
  timestamp :: datetime
  organization_id :: "UUID option"
  distance_meters :: "real option"

record CheckInRequest =
  employee_id :: UUID
  location :: GeoPoint

text \<open>The validator of \<^verbatim>\<open>GeoPoint.coordinates\<close>; \<open>Inl\<close> is the message of the ValueError.\<close>

definition validate_coordinates :: "real \<times> real \<Rightarrow> string + real \<times> real" where
  "validate_coordinates v =
     (case v of (longitude, latitude) \<Rightarrow>
        if \<not> (- 180 \<le> longitude \<and> longitude \<le> 180)
        then Inl ''Longitude must be between -180 and 180''
        else if \<not> (- 90 \<le> latitude \<and> latitude \<le> 90)
        then Inl ''Latitude must be between -90 and 90''
        else Inr v)"

text \<open>
  Constructing a \<^verbatim>\<open>GeoPoint\<close>. The field \<^verbatim>\<open>type\<close> is \<^verbatim>\<open>Literal["Point"]\<close> with default
  \<^verbatim>\<open>"Point"\<close>: an absent value (\<open>None\<close>) takes the default, a given one must be that
  string (the message for a wrong literal is pydantic's own, shortened here). Both
  fields are validated and the errors of both are collected.
\<close>

definition type_errors :: "string option \<Rightarrow> string list" where
  "type_errors t =
     (case t of None \<Rightarrow> []
      | Some x \<Rightarrow> if x = ''Point'' then [] else [''unexpected value; permitted: Point''])"

definition GeoPoint_init :: "string option \<Rightarrow> real \<times> real \<Rightarrow> error + GeoPoint" where
  "GeoPoint_init t v =
     (case validate_coordinates v of
        Inl msg \<Rightarrow> Inl (ValidationError (type_errors t @ [msg]))
      | Inr c \<Rightarrow>
          if type_errors t = [] then Inr \<lparr>type = ''Point'', coordinates = c\<rparr>
          else Inl (ValidationError (type_errors t)))"

text \<open>
  A location as it arrives in a request body or from \<^verbatim>\<open>.dict()\<close>: an optional
  \<^verbatim>\<open>type\<close> and the coordinate pair, not yet validated.
\<close>

type_synonym location_data = "string option \<times> (real \<times> real)"

definition GeoPoint_dict :: "GeoPoint \<Rightarrow> location_data" where
  "GeoPoint_dict p = (Some (type p), coordinates p)"

definition OrganizationBase_init :: "string \<Rightarrow> location_data \<Rightarrow> error + OrganizationBase" where
  "OrganizationBase_init n loc =
     (case GeoPoint_init (fst loc) (snd loc) of
        Inl e \<Rightarrow> Inl e
      | Inr p \<Rightarrow> Inr \<lparr>OrganizationBase.name = n, OrganizationBase.location = p\<rparr>)"

definition Organization_init :: "UUID \<Rightarrow> string \<Rightarrow> location_data \<Rightarrow> error + Organization" where
  "Organization_init uuid4 n loc =
     (case GeoPoint_init (fst loc) (snd loc) of
        Inl e \<Rightarrow> Inl e
      | Inr p \<Rightarrow> Inr \<lparr>OrganizationBase.name = n, OrganizationBase.location = p,
                      Organization.id = uuid4\<rparr>)"

definition CheckInRequest_init :: "UUID \<Rightarrow> location_data \<Rightarrow> error + CheckInRequest" where
  "CheckInRequest_init e loc =
     (case GeoPoint_init (fst loc) (snd loc) of
        Inl err \<Rightarrow> Inl err
      | Inr p \<Rightarrow> Inr \<lparr>CheckInRequest.employee_id = e, CheckInRequest.location = p\<rparr>)"

section \<open>The in-memory storage\<close>

record state =
  organizations_db :: "(UUID, Organization) dict"
  employees_db :: "(UUID, Employee) dict"
  attendance_db :: "(UUID, Attendance) dict"

definition init_state :: state where
  "init_state = \<lparr>organizations_db = [], employees_db = [], attendance_db = []\<rparr>"

section \<open>Helper functions\<close>

definition get_employee_or_404 :: "state \<Rightarrow> UUID \<Rightarrow> error + Employee" where
  "get_employee_or_404 s eid =
     (case dict_get (employees_db s) eid of
        None \<Rightarrow> Inl (HTTPException HTTP_404_NOT_FOUND
                      (''Employee with id '' @ str_UUID eid @ '' not found''))
      | Some employee \<Rightarrow> Inr employee)"

definition get_organization_or_404 :: "state \<Rightarrow> UUID \<Rightarrow> error + Organization" where
  "get_organization_or_404 s org_id =
     (case dict_get (organizations_db s) org_id of
        None \<Rightarrow> Inl (HTTPException HTTP_404_NOT_FOUND
                      (''Organization with id '' @ str_UUID org_id @ '' not found''))
      | Some organization \<Rightarrow> Inr organization)"

definition calculate_distance_meters :: "geodesic \<Rightarrow> GeoPoint \<Rightarrow> GeoPoint \<Rightarrow> real" where
  "calculate_distance_meters geodesic point1 point2 =
     (let coords1 = (snd (coordinates point1), fst (coordinates point1));
          coords2 = (snd (coordinates point2), fst (coordinates point2))
      in geodesic coords1 coords2)"

section \<open>The distance calculator\<close>

text \<open>
  Modelled from the spec: the distance calculator, \<^verbatim>\<open>geopy.distance.geodesic\<close>, is
  imported by \<^verbatim>\<open>main.py\<close> and is not among the repository's files. The spec (section
  4.2) gives it as the great-circle distance between two points on a spherical Earth
  model, the inputs being (latitude, longitude) pairs in degrees and the result meters.
  These are the constants of that model: the mean radius of the Earth in meters, the
  conversion of degrees, and the cosine of the central angle between two points.
\<close>

definition EARTH_RADIUS :: real where
  "EARTH_RADIUS = 6371009"

definition radians :: "real \<Rightarrow> real" where
  "radians d = d * pi / 180"

definition central_cos :: "real \<times> real \<Rightarrow> real \<times> real \<Rightarrow> real" where
  "central_cos c1 c2 =
     sin (radians (fst c1)) * sin (radians (fst c2))
     + cos (radians (fst c1)) * cos (radians (fst c2)) * cos (radians (snd c2 - snd c1))"

text \<open>
  Modelled from the spec: the great-circle distance of section 4.2, in place of
  \<^verbatim>\<open>geopy.distance.geodesic(c1, c2).meters\<close>, which is not among the repository's files:
  the radius times the central angle.
\<close>

definition great_circle :: geodesic where
  "great_circle c1 c2 = EARTH_RADIUS * arccos (central_cos c1 c2)"

section \<open>The endpoints\<close>

text \<open>
  Every endpoint takes the storage and returns its result, or the error it raises,
  with the storage after the call.
\<close>

definition read_root :: "state \<Rightarrow> (error + (string \<times> string) list) \<times> state" where
  "read_root s = (Inr [(''message'', ''Welcome to the Employee Attendance API'')], s)"

definition create_organization ::
  "UUID \<Rightarrow> OrganizationBase \<Rightarrow> state \<Rightarrow> (error + Organization) \<times> state" where
  "create_organization uuid4 org_data s =
     (case Organization_init uuid4 (OrganizationBase.name org_data)
             (GeoPoint_dict (OrganizationBase.location org_data)) of
        Inl e \<Rightarrow> (Inl e, s)
      | Inr new_org \<Rightarrow>
          if dict_contains (Organization.id new_org) (organizations_db s)
          then (Inl (HTTPException HTTP_409_CONFLICT ''Organization ID conflict''), s)
          else (Inr new_org,
                s\<lparr>organizations_db :=
                    dict_setitem (organizations_db s) (Organization.id new_org) new_org\<rparr>))"

definition list_organizations :: "state \<Rightarrow> (error + Organization list) \<times> state" where
  "list_organizations s = (Inr (dict_values (organizations_db s)), s)"

definition check_in ::
  "geodesic \<Rightarrow> UUID \<Rightarrow> datetime \<Rightarrow> CheckInRequest \<Rightarrow> state \<Rightarrow> (error + Attendance) \<times> state" where
  "check_in geodesic uuid4 utcnow check_in_data s =
     (case get_employee_or_404 s (CheckInRequest.employee_id check_in_data) of
        Inl e \<Rightarrow> (Inl e, s)
      | Inr employee \<Rightarrow>
     (case get_organization_or_404 s (EmployeeBase.organization_id employee) of
        Inl e \<Rightarrow> (Inl e, s)
      | Inr organization \<Rightarrow>
     (let distance = calculate_distance_meters geodesic
                       (CheckInRequest.location check_in_data)
                       (OrganizationBase.location organization)
      in if distance > of_int MAX_CHECKIN_DISTANCE_METERS
         then (Inl (HTTPException HTTP_400_BAD_REQUEST
                      (''Check-in location is too far from the organization. ''
                       @ ''Distance: '' @ format_2f distance @ ''m, Allowed: ''
                       @ str_int MAX_CHECKIN_DISTANCE_METERS @ ''m'')), s)
         else
           (let attendance_record =
                  \<lparr>AttendanceBase.employee_id = Employee.id employee,
                   AttendanceBase.location = CheckInRequest.location check_in_data,
                   Attendance.id = uuid4,
                   Attendance.timestamp = utcnow,
                   Attendance.organization_id = Some (Organization.id organization),
                   Attendance.distance_meters = Some (py_round distance 2)\<rparr>
            in if dict_contains (Attendance.id attendance_record) (attendance_db s)
               then (Inl (HTTPException HTTP_409_CONFLICT ''Attendance record ID conflict''), s)
               else (Inr attendance_record,
                     s\<lparr>attendance_db :=
                         dict_setitem (attendance_db s) (Attendance.id attendance_record)
                           attendance_record\<rparr>)))))"

definition list_attendance :: "state \<Rightarrow> (error + Attendance list) \<times> state" where
  "list_attendance s = (Inr (dict_values (attendance_db s)), s)"

definition get_employee :: "UUID \<Rightarrow> state \<Rightarrow> (error + Employee) \<times> state" where
  "get_employee eid s = (get_employee_or_404 s eid, s)"

definition create_employee ::
  "UUID \<Rightarrow> EmployeeBase \<Rightarrow> state \<Rightarrow> (error + Employee) \<times> state" where
  "create_employee uuid4 employee_data s =
     (case get_organization_or_404 s (EmployeeBase.organization_id employee_data) of
        Inl e \<Rightarrow> (Inl e, s)
      | Inr _ \<Rightarrow>
     (let new_employee =
            \<lparr>EmployeeBase.name = EmployeeBase.name employee_data,
             EmployeeBase.organization_id = EmployeeBase.organization_id employee_data,
             Employee.id = uuid4\<rparr>
      in if dict_contains (Employee.id new_employee) (employees_db s)
         then (Inl (HTTPException HTTP_409_CONFLICT ''Employee ID conflict''), s)
         else (Inr new_employee,
               s\<lparr>employees_db :=
                   dict_setitem (employees_db s) (Employee.id new_employee) new_employee\<rparr>)))"

definition list_employees :: "state \<Rightarrow> (error + Employee list) \<times> state" where
  "list_employees s = (Inr (dict_values (employees_db s)), s)"

section \<open>Requests and runs\<close>

text \<open>
  The routes of the application. A request body is parsed into its model before the
  endpoint runs, so a body whose location does not validate never reaches the endpoint:
  the request fails with the validation error and the storage is as before.
\<close>

datatype request =
    GET_root
  | POST_organizations string location_data
  | GET_organizations
  | POST_attendance_checkin UUID location_data
  | GET_attendance
  | GET_employees_id UUID
  | POST_employees string UUID
  | GET_employees

datatype response =
    RootResponse "(string \<times> string) list"
  | OrganizationResponse Organization
  | OrganizationListResponse "Organization list"
  | AttendanceResponse Attendance
  | AttendanceListResponse "Attendance list"
  | EmployeeResponse Employee
  | EmployeeListResponse "Employee list"

definition respond ::
  "('a \<Rightarrow> response) \<Rightarrow> (error + 'a) \<times> state \<Rightarrow> (error + response) \<times> state" where
  "respond f r = (case fst r of Inl e \<Rightarrow> (Inl e, snd r) | Inr x \<Rightarrow> (Inr (f x), snd r))"

fun handle ::
  "geodesic \<Rightarrow> UUID \<Rightarrow> datetime \<Rightarrow> request \<Rightarrow> state \<Rightarrow> (error + response) \<times> state" where
  "handle geodesic uuid4 utcnow GET_root s = respond RootResponse (read_root s)"
| "handle geodesic uuid4 utcnow (POST_organizations n loc) s =
     (case OrganizationBase_init n loc of
        Inl e \<Rightarrow> (Inl e, s)
      | Inr org_data \<Rightarrow> respond OrganizationResponse (create_organization uuid4 org_data s))"
| "handle geodesic uuid4 utcnow GET_organizations s =
     respond OrganizationListResponse (list_organizations s)"
| "handle geodesic uuid4 utcnow (POST_attendance_checkin e loc) s =
     (case CheckInRequest_init e loc of
        Inl err \<Rightarrow> (Inl err, s)
      | Inr check_in_data \<Rightarrow>
          respond AttendanceResponse (check_in geodesic uuid4 utcnow check_in_data s))"
| "handle geodesic uuid4 utcnow GET_attendance s =
     respond AttendanceListResponse (list_attendance s)"
| "handle geodesic uuid4 utcnow (GET_employees_id e) s =
     respond EmployeeResponse (get_employee e s)"
| "handle geodesic uuid4 utcnow (POST_employees n org_id) s =
     respond EmployeeResponse
       (create_employee uuid4
          \<lparr>EmployeeBase.name = n, EmployeeBase.organization_id = org_id\<rparr> s)"
| "handle geodesic uuid4 utcnow GET_employees s =
     respond EmployeeListResponse (list_employees s)"

text \<open>
  A run is a sequence of requests, each with the identifier and the instant its default
  factories would return; it yields the storage after the last request.
\<close>

fun run :: "geodesic \<Rightarrow> (UUID \<times> datetime \<times> request) list \<Rightarrow> state \<Rightarrow> state" where
  "run geodesic [] s = s"
| "run geodesic ((uuid4, utcnow, req) # rest) s =
     run geodesic rest (snd (handle geodesic uuid4 utcnow req s))"

section \<open>A fixture for closed examples\<close>

text \<open>
  Closed examples need some concrete distance function. \<open>grid_distance\<close> is a stand-in
  with 100 km to the degree; every theorem below holds for any function in its place.
  The storage \<open>demo_state\<close> holds one organization at (0, 0), one of its employees and
  one accepted check-in of that employee at latitude 0.005; it is what the three
  requests \<open>demo_requests\<close> leave behind. The identifiers have the shape of version 4
  UUIDs.
\<close>

abbreviation (input) org_uuid :: UUID where
  "org_uuid \<equiv> 0x00000000000040008000000000000001"

abbreviation (input) emp_uuid :: UUID where
  "emp_uuid \<equiv> 0x00000000000040008000000000000002"

abbreviation (input) att_uuid :: UUID where
  "att_uuid \<equiv> 0x00000000000040008000000000000003"

abbreviation (input) next_uuid :: UUID where
  "next_uuid \<equiv> 0x00000000000040008000000000000004"

abbreviation (input) unknown_uuid :: UUID where
  "unknown_uuid \<equiv> 0x000000000000400080000000000000ff"

abbreviation (input) east_uuid :: UUID where
  "east_uuid \<equiv> 0x00000000000040008000000000000005"

abbreviation (input) south_uuid :: UUID where
  "south_uuid \<equiv> 0x00000000000040008000000000000006"

definition grid_distance :: geodesic where
  "grid_distance c1 c2 = 100000 * (\<bar>fst c1 - fst c2\<bar> + \<bar>snd c1 - snd c2\<bar>)"

definition demo_noon :: datetime where
  "demo_noon = datetime 2024 1 15 12 0 0 0"

definition demo_point :: "real \<Rightarrow> real \<Rightarrow> GeoPoint" where
  "demo_point lon lat = \<lparr>type = ''Point'', coordinates = (lon, lat)\<rparr>"

definition demo_org :: Organization where
  "demo_org = \<lparr>OrganizationBase.name = ''Example Corp'',
                OrganizationBase.location = demo_point 0 0, Organization.id = org_uuid\<rparr>"

definition demo_employee :: Employee where
  "demo_employee = \<lparr>EmployeeBase.name = ''Jane Doe'', EmployeeBase.organization_id = org_uuid,
                     Employee.id = emp_uuid\<rparr>"

definition demo_attendance :: Attendance where
  "demo_attendance = \<lparr>AttendanceBase.employee_id = emp_uuid,
                       AttendanceBase.location = demo_point 0 (5 / 1000),
                       Attendance.id = att_uuid, Attendance.timestamp = demo_noon,
                       Attendance.organization_id = Some org_uuid,
                       Attendance.distance_meters = Some 500\<rparr>"

definition demo_state :: state where
  "demo_state = \<lparr>organizations_db = [(org_uuid, demo_org)],
                  employees_db = [(emp_uuid, demo_employee)],
                  attendance_db = [(att_uuid, demo_attendance)]\<rparr>"

definition demo_requests :: "(UUID \<times> datetime \<times> request) list" where
  "demo_requests =
     [(org_uuid, demo_noon, POST_organizations ''Example Corp'' (None, (0, 0))),
      (emp_uuid, demo_noon, POST_employees ''Jane Doe'' org_uuid),
      (att_uuid, demo_noon, POST_attendance_checkin emp_uuid (Some ''Point'', (0, 5 / 1000)))]"

text \<open>Organizations by name and place, and a storage that holds organizations only.\<close>

definition demo_org_data :: "string \<Rightarrow> real \<Rightarrow> real \<Rightarrow> OrganizationBase" where
  "demo_org_data n lon lat =
     \<lparr>OrganizationBase.name = n, OrganizationBase.location = demo_point lon lat\<rparr>"

definition demo_org_at :: "UUID \<Rightarrow> string \<Rightarrow> real \<Rightarrow> real \<Rightarrow> Organization" where
  "demo_org_at u n lon lat =
     \<lparr>OrganizationBase.name = n, OrganizationBase.location = demo_point lon lat,
      Organization.id = u\<rparr>"

definition demo_orgs_state :: "(UUID \<times> Organization) list \<Rightarrow> state" where
  "demo_orgs_state orgs = \<lparr>organizations_db = orgs, employees_db = [], attendance_db = []\<rparr>"

section \<open>Properties of the storage\<close>

text \<open>
  The predicates the invariants below are stated with: the coordinate ranges of a
  GeoPoint, the locations the storage holds, and what an attendance record owes to
  the organizations stored with it.
\<close>

definition in_range :: "real \<times> real \<Rightarrow> bool" where
  "in_range v = (- 180 \<le> fst v \<and> fst v \<le> 180 \<and> - 90 \<le> snd v \<and> snd v \<le> 90)"

definition stored_points :: "state \<Rightarrow> GeoPoint list" where
  "stored_points s =
     map OrganizationBase.location (dict_values (organizations_db s))
     @ map AttendanceBase.location (dict_values (attendance_db s))"

definition points_in_range :: "state \<Rightarrow> bool" where
  "points_in_range s = (\<forall>p \<in> set (stored_points s). in_range (coordinates p))"

definition keys_are_ids :: "state \<Rightarrow> bool" where
  "keys_are_ids s = (\<forall>(k, organization) \<in> set (organizations_db s). Organization.id organization = k)"

definition attendance_ok :: "(UUID, Organization) dict \<Rightarrow> Attendance \<Rightarrow> bool" where
  "attendance_ok organizations a =
     ((case Attendance.organization_id a of
         None \<Rightarrow> False
       | Some org_id \<Rightarrow>
           (case dict_get organizations org_id of
              None \<Rightarrow> False
            | Some organization \<Rightarrow> Organization.id organization = org_id))
      \<and> (case Attendance.distance_meters a of
           None \<Rightarrow> False
         | Some d \<Rightarrow> d \<le> of_int MAX_CHECKIN_DISTANCE_METERS))"

definition attendance_invariant :: "state \<Rightarrow> bool" where
  "attendance_invariant s =
     (\<forall>a \<in> set (dict_values (attendance_db s)). attendance_ok (organizations_db s) a)"

definition store_invariant :: "state \<Rightarrow> bool" where
  "store_invariant s = (keys_are_ids s \<and> attendance_invariant s)"

section \<open>Facts about the library functions\<close>

declare str_nat.simps [simp del]

lemma dict_setitem_fresh: "\<not> dict_contains k d \<Longrightarrow> dict_setitem d k v = d @ [(k, v)]"
  unfolding dict_contains_def dict_setitem_def
  by (induction d) auto

lemma round_half_even_le: "x \<le> of_int n \<Longrightarrow> round_half_even x \<le> n"
  unfolding round_half_even_def Let_def
  by (auto simp: floor_le_iff le_floor_iff)

lemma py_round_le_threshold:
  assumes "\<not> x > of_int MAX_CHECKIN_DISTANCE_METERS"
  shows "py_round x 2 \<le> of_int MAX_CHECKIN_DISTANCE_METERS"
proof -
  from assms have "x * 10 ^ 2 \<le> of_int 100000"
    by (simp add: MAX_CHECKIN_DISTANCE_METERS_def)
  then have "round_half_even (x * 10 ^ 2) \<le> 100000"
    by (rule round_half_even_le)
  then have "real_of_int (round_half_even (x * 10 ^ 2)) \<le> 100000"
    by linarith
  then show ?thesis
    by (simp add: py_round_def MAX_CHECKIN_DISTANCE_METERS_def field_simps)
qed

lemma str_threshold: "str_int MAX_CHECKIN_DISTANCE_METERS = ''1000''"
  by (simp add: MAX_CHECKIN_DISTANCE_METERS_def str_int_def str_nat.simps digit_char_def)

lemmas demo_defs =
  demo_state_def demo_org_def demo_employee_def demo_attendance_def demo_point_def
  demo_noon_def grid_distance_def

section \<open>Invariants of the storage\<close>

lemma dict_get_appended:
  "\<not> dict_contains k d \<Longrightarrow> dict_get (d @ [(k, v)]) k = Some v"
  unfolding dict_contains_def dict_get_def
  by (induction d) auto

lemma dict_get_append_old:
  "dict_get d k = Some v \<Longrightarrow> dict_get (d @ e) k = Some v"
  unfolding dict_get_def by simp

lemma dict_get_in_set: "dict_get d k = Some v \<Longrightarrow> (k, v) \<in> set d"
  unfolding dict_get_def by (rule map_of_SomeD)

lemma respond_snd: "snd (respond f r) = snd r"
  by (simp add: respond_def split: sum.splits)

lemma GeoPoint_init_in_range:
  "GeoPoint_init t v = Inr p \<Longrightarrow> in_range (coordinates p)"
  by (auto simp: GeoPoint_init_def validate_coordinates_def in_range_def
      split: sum.splits if_splits prod.splits)

subsection \<open>Every stored location has been validated\<close>

lemma create_organization_points:
  assumes "points_in_range s"
  shows "points_in_range (snd (create_organization uuid4 org_data s))"
proof (cases "Organization_init uuid4 (OrganizationBase.name org_data)
                (GeoPoint_dict (OrganizationBase.location org_data))")
  case (Inl e)
  with assms show ?thesis by (simp add: create_organization_def)
next
  case (Inr new_org)
  then have "in_range (coordinates (OrganizationBase.location new_org))"
    by (auto simp: Organization_init_def split: sum.splits dest: GeoPoint_init_in_range)
  with assms Inr show ?thesis
    by (auto simp: create_organization_def dict_setitem_fresh points_in_range_def
        stored_points_def dict_values_def)
qed

lemma check_in_points:
  assumes "points_in_range s" and "in_range (coordinates (CheckInRequest.location check_in_data))"
  shows "points_in_range (snd (check_in geodesic uuid4 utcnow check_in_data s))"
  using assms
  by (auto simp: check_in_def dict_setitem_fresh points_in_range_def Let_def
      stored_points_def dict_values_def split: sum.splits)

lemma create_employee_points:
  assumes "points_in_range s"
  shows "points_in_range (snd (create_employee uuid4 employee_data s))"
  using assms
  by (auto simp: create_employee_def points_in_range_def Let_def
      stored_points_def split: sum.splits)

lemma handle_points:
  assumes "points_in_range s"
  shows "points_in_range (snd (handle geodesic uuid4 utcnow req s))"
proof (cases req)
  case GET_root
  with assms show ?thesis by (simp add: respond_snd read_root_def)
next
  case (POST_organizations n loc)
  with assms show ?thesis
    by (simp add: respond_snd create_organization_points split: sum.splits)
next
  case GET_organizations
  with assms show ?thesis by (simp add: respond_snd list_organizations_def)
next
  case (POST_attendance_checkin e loc)
  show ?thesis
  proof (cases "CheckInRequest_init e loc")
    case (Inl err)
    with assms POST_attendance_checkin show ?thesis by simp
  next
    case (Inr check_in_data)
    then have "in_range (coordinates (CheckInRequest.location check_in_data))"
      by (auto simp: CheckInRequest_init_def split: sum.splits dest: GeoPoint_init_in_range)
    with assms Inr POST_attendance_checkin show ?thesis
      by (simp add: respond_snd check_in_points)
  qed
next
  case GET_attendance
  with assms show ?thesis by (simp add: respond_snd list_attendance_def)
next
  case (GET_employees_id e)
  with assms show ?thesis by (simp add: respond_snd get_employee_def)
next
  case (POST_employees n org_id)
  with assms show ?thesis by (simp add: respond_snd create_employee_points)
next
  case GET_employees
  with assms show ?thesis by (simp add: respond_snd list_employees_def)
qed

lemma run_points:
  "points_in_range s \<Longrightarrow> points_in_range (run geodesic evs s)"
proof (induction evs arbitrary: s)
  case Nil
  then show ?case by simp
next
  case (Cons ev evs)
  obtain uuid4 utcnow req where ev: "ev = (uuid4, utcnow, req)"
    by (cases ev) auto
  from Cons.prems have "points_in_range (snd (handle geodesic uuid4 utcnow req s))"
    by (rule handle_points)
  then show ?case unfolding ev by (simp add: Cons.IH)
qed

lemma init_points: "points_in_range init_state"
  by (simp add: points_in_range_def stored_points_def init_state_def dict_values_def)

subsection \<open>Attendance records refer to stored organizations\<close>

lemma attendance_ok_iff:
  "attendance_ok organizations a \<longleftrightarrow>
     (\<exists>org_id organization d.
        Attendance.organization_id a = Some org_id
        \<and> dict_get organizations org_id = Some organization
        \<and> Organization.id organization = org_id
        \<and> Attendance.distance_meters a = Some d
        \<and> d \<le> of_int MAX_CHECKIN_DISTANCE_METERS)"
  by (auto simp: attendance_ok_def split: option.splits)

lemma attendance_ok_more_organizations:
  "attendance_ok organizations a \<Longrightarrow> attendance_ok (organizations @ extra) a"
  unfolding attendance_ok_iff by (blast intro: dict_get_append_old)

lemma create_organization_store:
  assumes "store_invariant s"
  shows "store_invariant (snd (create_organization uuid4 org_data s))"
proof (cases "Organization_init uuid4 (OrganizationBase.name org_data)
                (GeoPoint_dict (OrganizationBase.location org_data))")
  case (Inl e)
  with assms show ?thesis by (simp add: create_organization_def)
next
  case (Inr new_org)
  then have new_id: "Organization.id new_org = uuid4"
    by (auto simp: Organization_init_def split: sum.splits)
  show ?thesis
  proof (cases "dict_contains uuid4 (organizations_db s)")
    case True
    with assms Inr new_id show ?thesis by (simp add: create_organization_def)
  next
    case False
    let ?s' = "s\<lparr>organizations_db := organizations_db s @ [(uuid4, new_org)]\<rparr>"
    from False Inr new_id have s': "snd (create_organization uuid4 org_data s) = ?s'"
      by (simp add: create_organization_def dict_setitem_fresh)
    from assms new_id have "keys_are_ids ?s'"
      by (auto simp: store_invariant_def keys_are_ids_def)
    moreover from assms have "attendance_invariant ?s'"
      by (auto simp: store_invariant_def attendance_invariant_def
          intro: attendance_ok_more_organizations)
    ultimately show ?thesis by (simp add: s' store_invariant_def)
  qed
qed

lemma check_in_store:
  assumes "store_invariant s"
  shows "store_invariant (snd (check_in geodesic uuid4 utcnow check_in_data s))"
proof (cases "fst (check_in geodesic uuid4 utcnow check_in_data s)")
  case (Inl e)
  then have "snd (check_in geodesic uuid4 utcnow check_in_data s) = s"
    by (auto simp: check_in_def Let_def split: sum.splits if_splits)
  with assms show ?thesis by simp
next
  case (Inr attendance_record)
  then obtain employee organization where
    employee: "dict_get (employees_db s) (CheckInRequest.employee_id check_in_data)
                 = Some employee"
    and organization: "dict_get (organizations_db s) (EmployeeBase.organization_id employee)
                 = Some organization"
    and near: "\<not> calculate_distance_meters geodesic (CheckInRequest.location check_in_data)
                   (OrganizationBase.location organization)
                 > of_int MAX_CHECKIN_DISTANCE_METERS"
    and fresh: "\<not> dict_contains uuid4 (attendance_db s)"
    by (auto simp: check_in_def get_employee_or_404_def get_organization_or_404_def Let_def
        split: sum.splits if_splits option.splits)
  let ?distance = "calculate_distance_meters geodesic (CheckInRequest.location check_in_data)
                     (OrganizationBase.location organization)"
  let ?attendance = "\<lparr>AttendanceBase.employee_id = Employee.id employee,
                   AttendanceBase.location = CheckInRequest.location check_in_data,
                   Attendance.id = uuid4,
                   Attendance.timestamp = utcnow,
                   Attendance.organization_id = Some (Organization.id organization),
                   Attendance.distance_meters = Some (py_round ?distance 2)\<rparr>"
  let ?s' = "s\<lparr>attendance_db := attendance_db s @ [(uuid4, ?attendance)]\<rparr>"
  from employee organization near fresh
  have s': "snd (check_in geodesic uuid4 utcnow check_in_data s) = ?s'"
    by (simp add: check_in_def get_employee_or_404_def get_organization_or_404_def
        dict_setitem_fresh Let_def)
  from assms have keys: "keys_are_ids s" and att: "attendance_invariant s"
    by (simp_all add: store_invariant_def)
  from organization have "(EmployeeBase.organization_id employee, organization)
                            \<in> set (organizations_db s)"
    by (rule dict_get_in_set)
  with keys have org_id: "Organization.id organization = EmployeeBase.organization_id employee"
    by (auto simp: keys_are_ids_def)
  from near have bound: "py_round ?distance 2 \<le> of_int MAX_CHECKIN_DISTANCE_METERS"
    by (rule py_round_le_threshold)
  from keys have "keys_are_ids ?s'" by (simp add: keys_are_ids_def)
  moreover have "attendance_ok (organizations_db s) ?attendance"
    unfolding attendance_ok_iff using organization org_id bound by simp
  with att have "attendance_invariant ?s'"
    by (auto simp: attendance_invariant_def dict_values_def)
  ultimately show ?thesis by (simp add: s' store_invariant_def)
qed

lemma create_employee_store:
  assumes "store_invariant s"
  shows "store_invariant (snd (create_employee uuid4 employee_data s))"
  using assms
  by (auto simp: create_employee_def store_invariant_def keys_are_ids_def
      attendance_invariant_def Let_def split: sum.splits)

lemma handle_store:
  assumes "store_invariant s"
  shows "store_invariant (snd (handle geodesic uuid4 utcnow req s))"
  using assms
  by (cases req)
    (simp_all add: respond_snd read_root_def list_organizations_def list_attendance_def
      get_employee_def list_employees_def create_organization_store check_in_store
      create_employee_store split: sum.splits)

lemma run_store:
  "store_invariant s \<Longrightarrow> store_invariant (run geodesic evs s)"
proof (induction evs arbitrary: s)
  case Nil
  then show ?case by simp
next
  case (Cons ev evs)
  obtain uuid4 utcnow req where ev: "ev = (uuid4, utcnow, req)"
    by (cases ev) auto
  from Cons.prems have "store_invariant (snd (handle geodesic uuid4 utcnow req s))"
    by (rule handle_store)
  then show ?case unfolding ev by (simp add: Cons.IH)
qed

lemma init_store: "store_invariant init_state"
  by (simp add: store_invariant_def keys_are_ids_def attendance_invariant_def
      init_state_def dict_values_def)

section \<open>Facts about the endpoints\<close>

lemma demo_state_reachable: "run grid_distance demo_requests init_state = demo_state"
  by (simp add: demo_requests_def init_state_def demo_defs OrganizationBase_init_def
      GeoPoint_init_def validate_coordinates_def type_errors_def respond_def
      create_organization_def Organization_init_def GeoPoint_dict_def dict_contains_def
      dict_setitem_def create_employee_def get_organization_or_404_def dict_get_def
      check_in_def get_employee_or_404_def CheckInRequest_init_def
      calculate_distance_meters_def MAX_CHECKIN_DISTANCE_METERS_def py_round_def
      round_half_even_def Let_def)

lemma py_round_threshold: "py_round (of_int MAX_CHECKIN_DISTANCE_METERS) 2 = 1000"
  by (simp add: py_round_def round_half_even_def MAX_CHECKIN_DISTANCE_METERS_def)

lemma check_in_stores:
  assumes "dict_get (employees_db s) (CheckInRequest.employee_id check_in_data) = Some employee"
    and "dict_get (organizations_db s) (EmployeeBase.organization_id employee)
           = Some organization"
    and "\<not> calculate_distance_meters geodesic (CheckInRequest.location check_in_data)
           (OrganizationBase.location organization) > of_int MAX_CHECKIN_DISTANCE_METERS"
    and "\<not> dict_contains uuid4 (attendance_db s)"
  shows "check_in geodesic uuid4 utcnow check_in_data s =
           (Inr \<lparr>AttendanceBase.employee_id = Employee.id employee,
                 AttendanceBase.location = CheckInRequest.location check_in_data,
                 Attendance.id = uuid4,
                 Attendance.timestamp = utcnow,
                 Attendance.organization_id = Some (Organization.id organization),
                 Attendance.distance_meters =
                   Some (py_round (calculate_distance_meters geodesic
                           (CheckInRequest.location check_in_data)
                           (OrganizationBase.location organization)) 2)\<rparr>,
            s\<lparr>attendance_db := attendance_db s @
               [(uuid4, \<lparr>AttendanceBase.employee_id = Employee.id employee,
                 AttendanceBase.location = CheckInRequest.location check_in_data,
                 Attendance.id = uuid4,
                 Attendance.timestamp = utcnow,
                 Attendance.organization_id = Some (Organization.id organization),
                 Attendance.distance_meters =
                   Some (py_round (calculate_distance_meters geodesic
                           (CheckInRequest.location check_in_data)
                           (OrganizationBase.location organization)) 2)\<rparr>)]\<rparr>)"
  using assms
  by (simp add: check_in_def get_employee_or_404_def get_organization_or_404_def
      dict_setitem_fresh Let_def)

lemma create_organization_success:
  assumes "create_organization uuid4 org_data s = (Inr new_org, s')"
  shows "s' = s\<lparr>organizations_db := organizations_db s @ [(uuid4, new_org)]\<rparr>"
proof -
  from assms have "Organization.id new_org = uuid4"
    by (auto simp: create_organization_def Organization_init_def split: sum.splits if_splits)
  with assms show ?thesis
    by (auto simp: create_organization_def dict_setitem_fresh split: sum.splits if_splits)
qed

lemma stored_points_demo:
  "stored_points demo_state = [demo_point 0 0, demo_point 0 (5 / 1000)]"
  by (simp add: stored_points_def demo_defs dict_values_def)

section \<open>Facts about the great circle\<close>












lemma great_circle_commute: "great_circle c1 c2 = great_circle c2 c1"
proof -
  have "snd c2 - snd c1 = - (snd c1 - snd c2)" by simp
  then have "radians (snd c2 - snd c1) = - radians (snd c1 - snd c2)"
    by (simp only: radians_def)
  then have "cos (radians (snd c2 - snd c1)) = cos (radians (snd c1 - snd c2))"
    by (simp only: cos_minus)
  then have "central_cos c1 c2 = central_cos c2 c1"
    by (simp add: central_cos_def mult.commute)
  then show ?thesis by (simp add: great_circle_def)
qed

lemma great_circle_latitude_step:
  "great_circle (0, 0) (5 / 1000, 0) = EARTH_RADIUS * pi / 36000"
proof -
  have "central_cos (0, 0) (5 / 1000, 0) = cos (pi / 36000)"
    by (simp add: central_cos_def radians_def)
  moreover have "arccos (cos (pi / 36000)) = pi / 36000"
    by (rule arccos_cos) (simp_all add: field_simps)
  ultimately show ?thesis by (simp add: great_circle_def)
qed


section \<open>The check-in decision\<close>

text \<open>
  Claim C1. When the employee and the organization of a check-in resolve and the
  computed distance is strictly greater than \<open>MAX_CHECKIN_DISTANCE_METERS\<close>, which is
  1000, \<open>check_in\<close> raises the HTTP 400 error whose detail shows the distance in the
  format \<^verbatim>\<open>.2f\<close> and the threshold, and the storage, hence the attendance collection, is
  the one before the call.
\<close>

theorem check_in_too_far:
  assumes "dict_get (employees_db s) (CheckInRequest.employee_id check_in_data) = Some employee"
    and "dict_get (organizations_db s) (EmployeeBase.organization_id employee)
           = Some organization"
    and "calculate_distance_meters geodesic (CheckInRequest.location check_in_data)
           (OrganizationBase.location organization) = distance"
    and "distance > of_int MAX_CHECKIN_DISTANCE_METERS"
  shows "check_in geodesic uuid4 utcnow check_in_data s =
           (Inl (HTTPException 400
              (''Check-in location is too far from the organization. Distance: ''
               @ format_2f distance @ ''m, Allowed: 1000m'')), s)
         \<and> MAX_CHECKIN_DISTANCE_METERS = 1000
         \<and> list_attendance (snd (check_in geodesic uuid4 utcnow check_in_data s))
             = list_attendance s"
proof -
  have result: "check_in geodesic uuid4 utcnow check_in_data s =
           (Inl (HTTPException 400
              (''Check-in location is too far from the organization. Distance: ''
               @ format_2f distance @ ''m, Allowed: 1000m'')), s)"
    using assms
    by (simp add: check_in_def get_employee_or_404_def get_organization_or_404_def
        str_threshold HTTP_400_BAD_REQUEST_def Let_def)
  have "MAX_CHECKIN_DISTANCE_METERS = 1000"
    by (simp add: MAX_CHECKIN_DISTANCE_METERS_def)
  with result show ?thesis by simp
qed

theorem check_in_too_far_witness:
  "dict_get (employees_db demo_state) emp_uuid = Some demo_employee
   \<and> dict_get (organizations_db demo_state) org_uuid = Some demo_org
   \<and> calculate_distance_meters grid_distance (demo_point 0 (5 / 100)) (demo_point 0 0) = 5000
   \<and> (5000 :: real) > of_int MAX_CHECKIN_DISTANCE_METERS
   \<and> check_in grid_distance next_uuid demo_noon
        \<lparr>CheckInRequest.employee_id = emp_uuid, CheckInRequest.location = demo_point 0 (5 / 100)\<rparr>
        demo_state
      = (Inl (HTTPException 400
           ''Check-in location is too far from the organization. Distance: 5000.00m, Allowed: 1000m''),
         demo_state)"
proof -
  have e: "dict_get (employees_db demo_state)
             (CheckInRequest.employee_id
                \<lparr>CheckInRequest.employee_id = emp_uuid,
                 CheckInRequest.location = demo_point 0 (5 / 100)\<rparr>) = Some demo_employee"
    by (simp add: demo_defs dict_get_def)
  have o: "dict_get (organizations_db demo_state) (EmployeeBase.organization_id demo_employee)
             = Some demo_org"
    by (simp add: demo_defs dict_get_def)
  have d: "calculate_distance_meters grid_distance
             (CheckInRequest.location
                \<lparr>CheckInRequest.employee_id = emp_uuid,
                 CheckInRequest.location = demo_point 0 (5 / 100)\<rparr>)
             (OrganizationBase.location demo_org) = 5000"
    by (simp add: demo_defs calculate_distance_meters_def)
  have far: "(5000 :: real) > of_int MAX_CHECKIN_DISTANCE_METERS"
    by (simp add: MAX_CHECKIN_DISTANCE_METERS_def)
  have f: "format_2f 5000 = ''5000.00''"
    by (simp add: format_2f_def round_half_even_def str_nat.simps digit_char_def Let_def)
  from check_in_too_far [OF e o d far, of next_uuid demo_noon] e o d far f
  show ?thesis by (simp add: demo_org_def demo_employee_def)
qed

text \<open>
  Claim C6. When the \<open>employee_id\<close> of a check-in is not a key of \<open>employees_db\<close>,
  \<open>check_in\<close> raises the HTTP 404 error whose detail names the employee identifier, and
  the storage, hence the attendance collection, is the one before the call.
\<close>

theorem check_in_unknown_employee:
  assumes "dict_get (employees_db s) (CheckInRequest.employee_id check_in_data) = None"
  shows "check_in geodesic uuid4 utcnow check_in_data s =
           (Inl (HTTPException 404
              (''Employee with id '' @ str_UUID (CheckInRequest.employee_id check_in_data)
               @ '' not found'')), s)
         \<and> list_attendance (snd (check_in geodesic uuid4 utcnow check_in_data s))
             = list_attendance s"
  using assms
  by (simp add: check_in_def get_employee_or_404_def HTTP_404_NOT_FOUND_def)

theorem check_in_unknown_employee_witness:
  "dict_get (employees_db demo_state) unknown_uuid = None
   \<and> check_in grid_distance next_uuid demo_noon
        \<lparr>CheckInRequest.employee_id = unknown_uuid, CheckInRequest.location = demo_point 0 0\<rparr>
        demo_state
      = (Inl (HTTPException 404
           ''Employee with id 00000000-0000-4000-8000-0000000000ff not found''), demo_state)"
proof -
  have e: "dict_get (employees_db demo_state)
             (CheckInRequest.employee_id
                \<lparr>CheckInRequest.employee_id = unknown_uuid,
                 CheckInRequest.location = demo_point 0 0\<rparr>) = None"
    by (simp add: demo_defs dict_get_def)
  have u: "str_UUID unknown_uuid = ''00000000-0000-4000-8000-0000000000ff''"
    by code_simp
  from check_in_unknown_employee [OF e, of grid_distance next_uuid demo_noon] e u
  show ?thesis by simp
qed

text \<open>
  Claim C2, as amended. When the employee and the organization of a check-in resolve,
  the computed distance is not greater than the threshold and the identifier generated
  for the record is not yet a key of \<open>attendance_db\<close>, \<open>check_in\<close> appends exactly
  one record to the attendance collection and returns it: its \<open>distance_meters\<close> is
  the distance rounded to 2 decimal places, its \<open>organization_id\<close> is the identifier of the
  employee's organization, its \<open>timestamp\<close> is the instant \<open>utcnow\<close> gave, and its
  \<open>employee_id\<close>, \<open>location\<close> and \<open>id\<close> are the employee's, the request's and the
  generated one.
\<close>

theorem check_in_accepted:
  assumes "dict_get (employees_db s) (CheckInRequest.employee_id check_in_data) = Some employee"
    and "dict_get (organizations_db s) (EmployeeBase.organization_id employee)
           = Some organization"
    and "calculate_distance_meters geodesic (CheckInRequest.location check_in_data)
           (OrganizationBase.location organization) = distance"
    and "\<not> distance > of_int MAX_CHECKIN_DISTANCE_METERS"
    and "\<not> dict_contains uuid4 (attendance_db s)"
  shows "\<exists>attendance_record.
           check_in geodesic uuid4 utcnow check_in_data s =
             (Inr attendance_record,
              s\<lparr>attendance_db := attendance_db s @ [(uuid4, attendance_record)]\<rparr>)
           \<and> fst (list_attendance (snd (check_in geodesic uuid4 utcnow check_in_data s)))
               = Inr (dict_values (attendance_db s) @ [attendance_record])
           \<and> AttendanceBase.employee_id attendance_record = Employee.id employee
           \<and> AttendanceBase.location attendance_record = CheckInRequest.location check_in_data
           \<and> Attendance.id attendance_record = uuid4
           \<and> Attendance.timestamp attendance_record = utcnow
           \<and> Attendance.organization_id attendance_record
               = Some (Organization.id organization)
           \<and> (keys_are_ids s \<longrightarrow>
                Attendance.organization_id attendance_record
                  = Some (EmployeeBase.organization_id employee))
           \<and> Attendance.distance_meters attendance_record = Some (py_round distance 2)"
proof -
  from assms(2) have "(EmployeeBase.organization_id employee, organization)
                        \<in> set (organizations_db s)"
    by (rule dict_get_in_set)
  then have "keys_are_ids s \<longrightarrow>
               Organization.id organization = EmployeeBase.organization_id employee"
    by (auto simp: keys_are_ids_def)
  with check_in_stores [of s check_in_data employee organization geodesic uuid4 utcnow] assms
  show ?thesis
    by (simp add: list_attendance_def dict_values_def)
qed

theorem check_in_accepted_witness:
  "dict_get (employees_db demo_state) emp_uuid = Some demo_employee
   \<and> dict_get (organizations_db demo_state) (EmployeeBase.organization_id demo_employee)
       = Some demo_org
   \<and> calculate_distance_meters grid_distance (demo_point 0 (5 / 1000))
        (OrganizationBase.location demo_org) = 500
   \<and> \<not> (500 :: real) > of_int MAX_CHECKIN_DISTANCE_METERS
   \<and> \<not> dict_contains next_uuid (attendance_db demo_state)
   \<and> keys_are_ids demo_state
   \<and> (\<exists>attendance_record.
         check_in grid_distance next_uuid demo_noon
           \<lparr>CheckInRequest.employee_id = emp_uuid,
            CheckInRequest.location = demo_point 0 (5 / 1000)\<rparr> demo_state
         = (Inr attendance_record,
            demo_state\<lparr>attendance_db :=
              [(att_uuid, demo_attendance), (next_uuid, attendance_record)]\<rparr>)
         \<and> Attendance.id attendance_record = next_uuid
         \<and> Attendance.timestamp attendance_record = demo_noon
         \<and> Attendance.organization_id attendance_record = Some org_uuid
         \<and> Attendance.distance_meters attendance_record = Some 500)"
proof -
  let ?req = "\<lparr>CheckInRequest.employee_id = emp_uuid,
               CheckInRequest.location = demo_point 0 (5 / 1000)\<rparr>"
  have e: "dict_get (employees_db demo_state) (CheckInRequest.employee_id ?req)
             = Some demo_employee"
    by (simp add: demo_defs dict_get_def)
  have o: "dict_get (organizations_db demo_state) (EmployeeBase.organization_id demo_employee)
             = Some demo_org"
    by (simp add: demo_defs dict_get_def)
  have d: "calculate_distance_meters grid_distance (CheckInRequest.location ?req)
             (OrganizationBase.location demo_org) = 500"
    by (simp add: demo_defs calculate_distance_meters_def)
  have near: "\<not> (500 :: real) > of_int MAX_CHECKIN_DISTANCE_METERS"
    by (simp add: MAX_CHECKIN_DISTANCE_METERS_def)
  have fresh: "\<not> dict_contains next_uuid (attendance_db demo_state)"
    by (simp add: demo_defs dict_contains_def)
  have keys: "keys_are_ids demo_state"
    by (simp add: demo_defs keys_are_ids_def)
  have r: "py_round 500 2 = 500"
    by (simp add: py_round_def round_half_even_def)
  have a: "attendance_db demo_state = [(att_uuid, demo_attendance)]"
    by (simp add: demo_state_def)
  have i: "EmployeeBase.organization_id demo_employee = org_uuid"
    by (simp add: demo_employee_def)
  from check_in_accepted [OF e o d near fresh, of demo_noon]
  obtain attendance_record where
    "check_in grid_distance next_uuid demo_noon ?req demo_state =
       (Inr attendance_record,
        demo_state\<lparr>attendance_db := attendance_db demo_state @ [(next_uuid, attendance_record)]\<rparr>)"
    "Attendance.id attendance_record = next_uuid"
    "Attendance.timestamp attendance_record = demo_noon"
    "keys_are_ids demo_state \<longrightarrow> Attendance.organization_id attendance_record
       = Some (EmployeeBase.organization_id demo_employee)"
    "Attendance.distance_meters attendance_record = Some (py_round 500 2)"
    by blast
  with keys r a i have "\<exists>attendance_record.
         check_in grid_distance next_uuid demo_noon ?req demo_state
         = (Inr attendance_record,
            demo_state\<lparr>attendance_db :=
              [(att_uuid, demo_attendance), (next_uuid, attendance_record)]\<rparr>)
         \<and> Attendance.id attendance_record = next_uuid
         \<and> Attendance.timestamp attendance_record = demo_noon
         \<and> Attendance.organization_id attendance_record = Some org_uuid
         \<and> Attendance.distance_meters attendance_record = Some 500"
    by auto
  with e o d near fresh keys show ?thesis by simp
qed

text \<open>
  The claim as first stated has no condition on the generated identifier. In the
  storage \<open>demo_state\<close> a check-in 500 m from the organization, whose generated
  identifier is the one of the record already stored, raises the HTTP 409 error and
  stores nothing.
\<close>

theorem check_in_accepted_counterexample:
  "dict_get (employees_db demo_state) emp_uuid = Some demo_employee
   \<and> dict_get (organizations_db demo_state) (EmployeeBase.organization_id demo_employee)
       = Some demo_org
   \<and> calculate_distance_meters grid_distance (demo_point 0 (5 / 1000))
        (OrganizationBase.location demo_org) = 500
   \<and> \<not> (500 :: real) > of_int MAX_CHECKIN_DISTANCE_METERS
   \<and> check_in grid_distance att_uuid demo_noon
        \<lparr>CheckInRequest.employee_id = emp_uuid,
         CheckInRequest.location = demo_point 0 (5 / 1000)\<rparr> demo_state
      = (Inl (HTTPException 409 ''Attendance record ID conflict''), demo_state)"
  by (simp add: demo_defs dict_get_def calculate_distance_meters_def
      MAX_CHECKIN_DISTANCE_METERS_def check_in_def get_employee_or_404_def
      get_organization_or_404_def dict_contains_def HTTP_409_CONFLICT_def Let_def)

text \<open>
  Claim C9, as amended. The comparison with the threshold is strict. When the employee
  and the organization resolve, \<open>check_in\<close> raises the HTTP 400 error exactly when the
  computed distance is strictly greater than \<open>MAX_CHECKIN_DISTANCE_METERS\<close>; a check-in
  whose distance equals the threshold is accepted and appends its record, provided
  the generated identifier is not yet a key of \<open>attendance_db\<close>.
\<close>

theorem geofence_comparison_strict:
  assumes "dict_get (employees_db s) (CheckInRequest.employee_id check_in_data) = Some employee"
    and "dict_get (organizations_db s) (EmployeeBase.organization_id employee)
           = Some organization"
    and "calculate_distance_meters geodesic (CheckInRequest.location check_in_data)
           (OrganizationBase.location organization) = distance"
  shows "((\<exists>detail. fst (check_in geodesic uuid4 utcnow check_in_data s)
                     = Inl (HTTPException HTTP_400_BAD_REQUEST detail))
          \<longleftrightarrow> distance > of_int MAX_CHECKIN_DISTANCE_METERS)
         \<and> (distance = of_int MAX_CHECKIN_DISTANCE_METERS
              \<and> \<not> dict_contains uuid4 (attendance_db s) \<longrightarrow>
            (\<exists>attendance_record.
               check_in geodesic uuid4 utcnow check_in_data s =
                 (Inr attendance_record,
                  s\<lparr>attendance_db := attendance_db s @ [(uuid4, attendance_record)]\<rparr>)
               \<and> Attendance.distance_meters attendance_record = Some 1000))"
proof (intro conjI impI)
  show "(\<exists>detail. fst (check_in geodesic uuid4 utcnow check_in_data s)
                    = Inl (HTTPException HTTP_400_BAD_REQUEST detail))
          \<longleftrightarrow> distance > of_int MAX_CHECKIN_DISTANCE_METERS"
    using assms
    by (simp add: check_in_def get_employee_or_404_def get_organization_or_404_def Let_def
        HTTP_400_BAD_REQUEST_def HTTP_409_CONFLICT_def)
next
  assume "distance = of_int MAX_CHECKIN_DISTANCE_METERS
            \<and> \<not> dict_contains uuid4 (attendance_db s)"
  with assms check_in_stores [of s check_in_data employee organization geodesic uuid4 utcnow]
  show "\<exists>attendance_record.
               check_in geodesic uuid4 utcnow check_in_data s =
                 (Inr attendance_record,
                  s\<lparr>attendance_db := attendance_db s @ [(uuid4, attendance_record)]\<rparr>)
               \<and> Attendance.distance_meters attendance_record = Some 1000"
    by (simp add: py_round_threshold)
qed

text \<open>
  The claim as first stated promises a record for every check-in at exactly the
  threshold. In \<open>demo_state\<close> a check-in exactly 1000 m from the organization, whose
  generated identifier is the one of the record already stored, raises the HTTP 409
  error and stores nothing.
\<close>

theorem geofence_comparison_strict_counterexample:
  "dict_get (employees_db demo_state) emp_uuid = Some demo_employee
   \<and> dict_get (organizations_db demo_state) (EmployeeBase.organization_id demo_employee)
       = Some demo_org
   \<and> calculate_distance_meters grid_distance (demo_point 0 (1 / 100))
        (OrganizationBase.location demo_org) = of_int MAX_CHECKIN_DISTANCE_METERS
   \<and> check_in grid_distance att_uuid demo_noon
        \<lparr>CheckInRequest.employee_id = emp_uuid,
         CheckInRequest.location = demo_point 0 (1 / 100)\<rparr> demo_state
      = (Inl (HTTPException 409 ''Attendance record ID conflict''), demo_state)"
  by (simp add: demo_defs dict_get_def calculate_distance_meters_def
      MAX_CHECKIN_DISTANCE_METERS_def check_in_def get_employee_or_404_def
      get_organization_or_404_def dict_contains_def HTTP_409_CONFLICT_def Let_def)

theorem geofence_comparison_strict_witness:
  "dict_get (employees_db demo_state) emp_uuid = Some demo_employee
   \<and> dict_get (organizations_db demo_state) (EmployeeBase.organization_id demo_employee)
       = Some demo_org
   \<and> calculate_distance_meters grid_distance (demo_point 0 (1 / 100))
        (OrganizationBase.location demo_org) = of_int MAX_CHECKIN_DISTANCE_METERS
   \<and> \<not> dict_contains next_uuid (attendance_db demo_state)
   \<and> (\<exists>attendance_record.
         check_in grid_distance next_uuid demo_noon
           \<lparr>CheckInRequest.employee_id = emp_uuid,
            CheckInRequest.location = demo_point 0 (1 / 100)\<rparr> demo_state
         = (Inr attendance_record,
            demo_state\<lparr>attendance_db :=
              [(att_uuid, demo_attendance), (next_uuid, attendance_record)]\<rparr>)
         \<and> Attendance.distance_meters attendance_record = Some 1000)
   \<and> \<not> (\<exists>detail. fst (check_in grid_distance next_uuid demo_noon
           \<lparr>CheckInRequest.employee_id = emp_uuid,
            CheckInRequest.location = demo_point 0 (1 / 100)\<rparr> demo_state)
         = Inl (HTTPException HTTP_400_BAD_REQUEST detail))"
proof -
  let ?req = "\<lparr>CheckInRequest.employee_id = emp_uuid,
               CheckInRequest.location = demo_point 0 (1 / 100)\<rparr>"
  have e: "dict_get (employees_db demo_state) (CheckInRequest.employee_id ?req)
             = Some demo_employee"
    by (simp add: demo_defs dict_get_def)
  have o: "dict_get (organizations_db demo_state) (EmployeeBase.organization_id demo_employee)
             = Some demo_org"
    by (simp add: demo_defs dict_get_def)
  have d: "calculate_distance_meters grid_distance (CheckInRequest.location ?req)
             (OrganizationBase.location demo_org) = of_int MAX_CHECKIN_DISTANCE_METERS"
    by (simp add: demo_defs calculate_distance_meters_def MAX_CHECKIN_DISTANCE_METERS_def)
  have fresh: "\<not> dict_contains next_uuid (attendance_db demo_state)"
    by (simp add: demo_defs dict_contains_def)
  have a: "attendance_db demo_state = [(att_uuid, demo_attendance)]"
    by (simp add: demo_state_def)
  note strict = geofence_comparison_strict [OF e o d, of next_uuid demo_noon]
  from strict fresh a have accepted: "\<exists>attendance_record.
         check_in grid_distance next_uuid demo_noon ?req demo_state
         = (Inr attendance_record,
            demo_state\<lparr>attendance_db :=
              [(att_uuid, demo_attendance), (next_uuid, attendance_record)]\<rparr>)
         \<and> Attendance.distance_meters attendance_record = Some 1000"
    by simp
  from strict have "\<not> (\<exists>detail. fst (check_in grid_distance next_uuid demo_noon ?req demo_state)
         = Inl (HTTPException HTTP_400_BAD_REQUEST detail))"
    by simp
  with e o d fresh accepted show ?thesis by simp
qed

section \<open>Employees\<close>

text \<open>
  Claim C7. \<open>create_employee\<close> raises the HTTP 404 error when the \<open>organization_id\<close> of
  the new employee is not a key of \<open>organizations_db\<close>, and the storage, hence the
  employee collection, is then the one before the call. When the organization exists
  and the generated identifier is not yet a key of \<open>employees_db\<close>, it appends the
  new employee, returns it, and \<open>get_employee\<close> finds it afterwards.
\<close>

theorem create_employee_referential_integrity:
  "(dict_get (organizations_db s) (EmployeeBase.organization_id employee_data) = None \<longrightarrow>
      create_employee uuid4 employee_data s =
        (Inl (HTTPException 404
           (''Organization with id ''
            @ str_UUID (EmployeeBase.organization_id employee_data) @ '' not found'')), s)
      \<and> list_employees (snd (create_employee uuid4 employee_data s)) = list_employees s)
   \<and> (dict_get (organizations_db s) (EmployeeBase.organization_id employee_data)
         = Some organization
       \<and> \<not> dict_contains uuid4 (employees_db s) \<longrightarrow>
      (\<exists>new_employee.
         create_employee uuid4 employee_data s =
           (Inr new_employee,
            s\<lparr>employees_db := employees_db s @ [(uuid4, new_employee)]\<rparr>)
         \<and> EmployeeBase.name new_employee = EmployeeBase.name employee_data
         \<and> EmployeeBase.organization_id new_employee
             = EmployeeBase.organization_id employee_data
         \<and> Employee.id new_employee = uuid4
         \<and> get_employee uuid4 (snd (create_employee uuid4 employee_data s))
             = (Inr new_employee, snd (create_employee uuid4 employee_data s))))"
  by (simp add: create_employee_def get_organization_or_404_def HTTP_404_NOT_FOUND_def
      dict_setitem_fresh dict_get_appended get_employee_def get_employee_or_404_def Let_def)

theorem create_employee_referential_integrity_witness:
  "dict_get (organizations_db demo_state) unknown_uuid = None
   \<and> create_employee next_uuid
        \<lparr>EmployeeBase.name = ''John Roe'', EmployeeBase.organization_id = unknown_uuid\<rparr>
        demo_state
      = (Inl (HTTPException 404
           ''Organization with id 00000000-0000-4000-8000-0000000000ff not found''),
         demo_state)
   \<and> dict_get (organizations_db demo_state) org_uuid = Some demo_org
   \<and> \<not> dict_contains next_uuid (employees_db demo_state)
   \<and> create_employee next_uuid
        \<lparr>EmployeeBase.name = ''John Roe'', EmployeeBase.organization_id = org_uuid\<rparr>
        demo_state
      = (Inr \<lparr>EmployeeBase.name = ''John Roe'', EmployeeBase.organization_id = org_uuid,
              Employee.id = next_uuid\<rparr>,
         demo_state\<lparr>employees_db :=
           [(emp_uuid, demo_employee),
            (next_uuid, \<lparr>EmployeeBase.name = ''John Roe'',
               EmployeeBase.organization_id = org_uuid, Employee.id = next_uuid\<rparr>)]\<rparr>)"
proof -
  let ?bad = "\<lparr>EmployeeBase.name = ''John Roe'', EmployeeBase.organization_id = unknown_uuid\<rparr>"
  let ?good = "\<lparr>EmployeeBase.name = ''John Roe'', EmployeeBase.organization_id = org_uuid\<rparr>"
  have missing: "dict_get (organizations_db demo_state) (EmployeeBase.organization_id ?bad) = None"
    by (simp add: demo_defs dict_get_def)
  have present: "dict_get (organizations_db demo_state) (EmployeeBase.organization_id ?good)
                   = Some demo_org"
    by (simp add: demo_defs dict_get_def)
  have fresh: "\<not> dict_contains next_uuid (employees_db demo_state)"
    by (simp add: demo_defs dict_contains_def)
  have u: "str_UUID unknown_uuid = ''00000000-0000-4000-8000-0000000000ff''"
    by code_simp
  have emps: "employees_db demo_state = [(emp_uuid, demo_employee)]"
    by (simp add: demo_state_def)
  from create_employee_referential_integrity [of demo_state ?bad next_uuid] missing u
  have rejected: "create_employee next_uuid ?bad demo_state
      = (Inl (HTTPException 404
           ''Organization with id 00000000-0000-4000-8000-0000000000ff not found''),
         demo_state)"
    by simp
  from create_employee_referential_integrity [of demo_state ?good next_uuid demo_org]
    present fresh
  obtain new_employee where
    "create_employee next_uuid ?good demo_state =
       (Inr new_employee,
        demo_state\<lparr>employees_db := employees_db demo_state @ [(next_uuid, new_employee)]\<rparr>)"
    "EmployeeBase.name new_employee = EmployeeBase.name ?good"
    "EmployeeBase.organization_id new_employee = EmployeeBase.organization_id ?good"
    "Employee.id new_employee = next_uuid"
    by blast
  with emps have stored: "create_employee next_uuid ?good demo_state
      = (Inr \<lparr>EmployeeBase.name = ''John Roe'', EmployeeBase.organization_id = org_uuid,
              Employee.id = next_uuid\<rparr>,
         demo_state\<lparr>employees_db :=
           [(emp_uuid, demo_employee),
            (next_uuid, \<lparr>EmployeeBase.name = ''John Roe'',
               EmployeeBase.organization_id = org_uuid, Employee.id = next_uuid\<rparr>)]\<rparr>)"
    by (cases new_employee) simp
  from missing present fresh rejected stored show ?thesis by simp
qed

section \<open>Organizations\<close>

text \<open>
  Claim C8. \<open>list_organizations\<close> returns the organizations in insertion order: after
  three successful calls of \<open>create_organization\<close> that return O1, O2 and O3, it returns
  the organizations stored before followed by O1, O2, O3, which is [O1, O2, O3] when
  the three calls start from the empty storage. The call leaves the storage as it is,
  so a second call with no write in between returns the same sequence.
\<close>

theorem list_organizations_insertion_order:
  "(create_organization uuid4_1 org_data_1 s0 = (Inr O1, s1)
    \<and> create_organization uuid4_2 org_data_2 s1 = (Inr O2, s2)
    \<and> create_organization uuid4_3 org_data_3 s2 = (Inr O3, s3) \<longrightarrow>
      list_organizations s3 = (Inr (dict_values (organizations_db s0) @ [O1, O2, O3]), s3)
      \<and> (s0 = init_state \<longrightarrow> list_organizations s3 = (Inr [O1, O2, O3], s3)))
   \<and> snd (list_organizations s) = s
   \<and> list_organizations (snd (list_organizations s)) = list_organizations s"
proof (intro conjI impI)
  assume created: "create_organization uuid4_1 org_data_1 s0 = (Inr O1, s1)
    \<and> create_organization uuid4_2 org_data_2 s1 = (Inr O2, s2)
    \<and> create_organization uuid4_3 org_data_3 s2 = (Inr O3, s3)"
  then have c1: "create_organization uuid4_1 org_data_1 s0 = (Inr O1, s1)"
    and c2: "create_organization uuid4_2 org_data_2 s1 = (Inr O2, s2)"
    and c3: "create_organization uuid4_3 org_data_3 s2 = (Inr O3, s3)"
    by simp_all
  have "s1 = s0\<lparr>organizations_db := organizations_db s0 @ [(uuid4_1, O1)]\<rparr>"
    using c1 by (rule create_organization_success)
  moreover have "s2 = s1\<lparr>organizations_db := organizations_db s1 @ [(uuid4_2, O2)]\<rparr>"
    using c2 by (rule create_organization_success)
  moreover have "s3 = s2\<lparr>organizations_db := organizations_db s2 @ [(uuid4_3, O3)]\<rparr>"
    using c3 by (rule create_organization_success)
  ultimately have "organizations_db s3
               = organizations_db s0 @ [(uuid4_1, O1), (uuid4_2, O2), (uuid4_3, O3)]"
    by simp
  then show all: "list_organizations s3
                    = (Inr (dict_values (organizations_db s0) @ [O1, O2, O3]), s3)"
    by (simp add: list_organizations_def dict_values_def)
  assume "s0 = init_state"
  with all show "list_organizations s3 = (Inr [O1, O2, O3], s3)"
    by (simp add: init_state_def dict_values_def)
next
  show "snd (list_organizations s) = s"
    by (simp add: list_organizations_def)
  show "list_organizations (snd (list_organizations s)) = list_organizations s"
    by (simp add: list_organizations_def)
qed

theorem list_organizations_insertion_order_witness:
  "create_organization org_uuid (demo_org_data ''North'' 0 0) init_state
     = (Inr (demo_org_at org_uuid ''North'' 0 0),
        demo_orgs_state [(org_uuid, demo_org_at org_uuid ''North'' 0 0)])
   \<and> create_organization east_uuid (demo_org_data ''East'' 10 20)
        (demo_orgs_state [(org_uuid, demo_org_at org_uuid ''North'' 0 0)])
     = (Inr (demo_org_at east_uuid ''East'' 10 20),
        demo_orgs_state [(org_uuid, demo_org_at org_uuid ''North'' 0 0),
                         (east_uuid, demo_org_at east_uuid ''East'' 10 20)])
   \<and> create_organization south_uuid (demo_org_data ''South'' (- 30) 40)
        (demo_orgs_state [(org_uuid, demo_org_at org_uuid ''North'' 0 0),
                          (east_uuid, demo_org_at east_uuid ''East'' 10 20)])
     = (Inr (demo_org_at south_uuid ''South'' (- 30) 40),
        demo_orgs_state [(org_uuid, demo_org_at org_uuid ''North'' 0 0),
                         (east_uuid, demo_org_at east_uuid ''East'' 10 20),
                         (south_uuid, demo_org_at south_uuid ''South'' (- 30) 40)])
   \<and> fst (list_organizations
        (demo_orgs_state [(org_uuid, demo_org_at org_uuid ''North'' 0 0),
                         (east_uuid, demo_org_at east_uuid ''East'' 10 20),
                         (south_uuid, demo_org_at south_uuid ''South'' (- 30) 40)]))
     = Inr [demo_org_at org_uuid ''North'' 0 0, demo_org_at east_uuid ''East'' 10 20,
            demo_org_at south_uuid ''South'' (- 30) 40]"
proof -
  let ?s1 = "demo_orgs_state [(org_uuid, demo_org_at org_uuid ''North'' 0 0)]"
  let ?s2 = "demo_orgs_state [(org_uuid, demo_org_at org_uuid ''North'' 0 0),
                         (east_uuid, demo_org_at east_uuid ''East'' 10 20)]"
  let ?s3 = "demo_orgs_state [(org_uuid, demo_org_at org_uuid ''North'' 0 0),
                         (east_uuid, demo_org_at east_uuid ''East'' 10 20),
                         (south_uuid, demo_org_at south_uuid ''South'' (- 30) 40)]"
  note eval = create_organization_def Organization_init_def GeoPoint_init_def
    GeoPoint_dict_def validate_coordinates_def type_errors_def dict_contains_def
    dict_setitem_def demo_org_data_def demo_org_at_def demo_orgs_state_def demo_point_def
    init_state_def
  have c1: "create_organization org_uuid (demo_org_data ''North'' 0 0) init_state
              = (Inr (demo_org_at org_uuid ''North'' 0 0), ?s1)"
    by (simp add: eval)
  have c2: "create_organization east_uuid (demo_org_data ''East'' 10 20) ?s1
              = (Inr (demo_org_at east_uuid ''East'' 10 20), ?s2)"
    by (simp add: eval)
  have c3: "create_organization south_uuid (demo_org_data ''South'' (- 30) 40) ?s2
              = (Inr (demo_org_at south_uuid ''South'' (- 30) 40), ?s3)"
    by (simp add: eval)
  note order = list_organizations_insertion_order
         [of org_uuid "demo_org_data ''North'' 0 0" init_state
             "demo_org_at org_uuid ''North'' 0 0" ?s1
             east_uuid "demo_org_data ''East'' 10 20" "demo_org_at east_uuid ''East'' 10 20" ?s2
             south_uuid "demo_org_data ''South'' (- 30) 40"
             "demo_org_at south_uuid ''South'' (- 30) 40" ?s3 ?s3]
  from order c1 c2 c3
  have "list_organizations ?s3
          = (Inr [demo_org_at org_uuid ''North'' 0 0, demo_org_at east_uuid ''East'' 10 20,
                  demo_org_at south_uuid ''South'' (- 30) 40], ?s3)"
    by blast
  with c1 c2 c3 show ?thesis by simp
qed

section \<open>GeoPoint\<close>

text \<open>
  Claim C4. A pair (longitude, latitude) with longitude in [-180, 180] and latitude in
  [-90, 90] passes the validator and constructs the GeoPoint with these coordinates.
  Any other pair fails: the validator raises, the construction gives a
  \<open>ValidationError\<close>, and a request to create an organization or to check in with such a
  location fails with that error and leaves the storage as it is. No out-of-range pair
  is ever stored: after any sequence of requests from the empty storage, every location
  of an organization or of an attendance record is within both ranges.
\<close>

theorem GeoPoint_construction:
  "(- 180 \<le> longitude \<and> longitude \<le> 180 \<and> - 90 \<le> latitude \<and> latitude \<le> 90 \<longrightarrow>
      validate_coordinates (longitude, latitude) = Inr (longitude, latitude)
      \<and> GeoPoint_init None (longitude, latitude)
          = Inr \<lparr>type = ''Point'', coordinates = (longitude, latitude)\<rparr>
      \<and> GeoPoint_init (Some ''Point'') (longitude, latitude)
          = Inr \<lparr>type = ''Point'', coordinates = (longitude, latitude)\<rparr>)
   \<and> (\<not> (- 180 \<le> longitude \<and> longitude \<le> 180 \<and> - 90 \<le> latitude \<and> latitude \<le> 90) \<longrightarrow>
      (\<exists>message. validate_coordinates (longitude, latitude) = Inl message)
      \<and> (\<exists>messages. GeoPoint_init t (longitude, latitude) = Inl (ValidationError messages))
      \<and> (\<exists>messages.
            handle geodesic uuid4 utcnow (POST_organizations n (t, (longitude, latitude))) s
              = (Inl (ValidationError messages), s))
      \<and> (\<exists>messages.
            handle geodesic uuid4 utcnow
              (POST_attendance_checkin e (t, (longitude, latitude))) s
              = (Inl (ValidationError messages), s)))
   \<and> (\<forall>p \<in> set (stored_points (run geodesic requests init_state)).
        - 180 \<le> fst (coordinates p) \<and> fst (coordinates p) \<le> 180
        \<and> - 90 \<le> snd (coordinates p) \<and> snd (coordinates p) \<le> 90)"
proof (intro conjI impI)
  assume "- 180 \<le> longitude \<and> longitude \<le> 180 \<and> - 90 \<le> latitude \<and> latitude \<le> 90"
  then show "validate_coordinates (longitude, latitude) = Inr (longitude, latitude)"
    and "GeoPoint_init None (longitude, latitude)
          = Inr \<lparr>type = ''Point'', coordinates = (longitude, latitude)\<rparr>"
    and "GeoPoint_init (Some ''Point'') (longitude, latitude)
          = Inr \<lparr>type = ''Point'', coordinates = (longitude, latitude)\<rparr>"
    by (simp_all add: GeoPoint_init_def validate_coordinates_def type_errors_def)
next
  assume out: "\<not> (- 180 \<le> longitude \<and> longitude \<le> 180 \<and> - 90 \<le> latitude \<and> latitude \<le> 90)"
  then show ex: "\<exists>message. validate_coordinates (longitude, latitude) = Inl message"
    by (auto simp: validate_coordinates_def)
  then obtain message where v: "validate_coordinates (longitude, latitude) = Inl message" ..
  from v have g: "GeoPoint_init t (longitude, latitude)
                    = Inl (ValidationError (type_errors t @ [message]))"
    by (simp add: GeoPoint_init_def)
  then show "\<exists>messages. GeoPoint_init t (longitude, latitude) = Inl (ValidationError messages)" ..
  from g show "\<exists>messages.
            handle geodesic uuid4 utcnow (POST_organizations n (t, (longitude, latitude))) s
              = (Inl (ValidationError messages), s)"
    by (simp add: OrganizationBase_init_def)
  from g show "\<exists>messages.
            handle geodesic uuid4 utcnow
              (POST_attendance_checkin e (t, (longitude, latitude))) s
              = (Inl (ValidationError messages), s)"
    by (simp add: CheckInRequest_init_def)
next
  have "points_in_range (run geodesic requests init_state)"
    using init_points by (rule run_points)
  then show "\<forall>p \<in> set (stored_points (run geodesic requests init_state)).
        - 180 \<le> fst (coordinates p) \<and> fst (coordinates p) \<le> 180
        \<and> - 90 \<le> snd (coordinates p) \<and> snd (coordinates p) \<le> 90"
    by (simp add: points_in_range_def in_range_def)
qed

theorem GeoPoint_construction_witness:
  "GeoPoint_init None (- 7399 / 100, 4073 / 100)
     = Inr \<lparr>type = ''Point'', coordinates = (- 7399 / 100, 4073 / 100)\<rparr>
   \<and> \<not> ((200 :: real) \<le> 180)
   \<and> GeoPoint_init None (200, 0)
       = Inl (ValidationError [''Longitude must be between -180 and 180''])
   \<and> \<not> (- 90 \<le> (- 95 :: real))
   \<and> GeoPoint_init None (0, - 95)
       = Inl (ValidationError [''Latitude must be between -90 and 90''])
   \<and> handle grid_distance next_uuid demo_noon
        (POST_organizations ''Far Corp'' (None, (200, 0))) demo_state
       = (Inl (ValidationError [''Longitude must be between -180 and 180'']), demo_state)
   \<and> handle grid_distance next_uuid demo_noon
        (POST_attendance_checkin emp_uuid (None, (0, - 95))) demo_state
       = (Inl (ValidationError [''Latitude must be between -90 and 90'']), demo_state)
   \<and> stored_points (run grid_distance demo_requests init_state)
       = [demo_point 0 0, demo_point 0 (5 / 1000)]
   \<and> - 90 \<le> snd (coordinates (demo_point 0 (5 / 1000)))
   \<and> snd (coordinates (demo_point 0 (5 / 1000))) \<le> 90"
proof -
  have ok: "GeoPoint_init None (- 7399 / 100, 4073 / 100)
              = Inr \<lparr>type = ''Point'', coordinates = (- 7399 / 100, 4073 / 100)\<rparr>"
    using GeoPoint_construction [of "- 7399 / 100" "4073 / 100"] by simp
  note east = GeoPoint_construction
    [of 200 0 None grid_distance next_uuid demo_noon "''Far Corp''" demo_state]
  note south = GeoPoint_construction
    [of 0 "- 95" None grid_distance next_uuid demo_noon _ demo_state emp_uuid]
  have lon: "GeoPoint_init None (200, 0)
               = Inl (ValidationError [''Longitude must be between -180 and 180''])"
    using east by (auto simp: GeoPoint_init_def validate_coordinates_def type_errors_def)
  have lat: "GeoPoint_init None (0, - 95)
               = Inl (ValidationError [''Latitude must be between -90 and 90''])"
    using south by (auto simp: GeoPoint_init_def validate_coordinates_def type_errors_def)
  have org: "handle grid_distance next_uuid demo_noon
        (POST_organizations ''Far Corp'' (None, (200, 0))) demo_state
       = (Inl (ValidationError [''Longitude must be between -180 and 180'']), demo_state)"
    using east lon by (auto simp: OrganizationBase_init_def)
  have att: "handle grid_distance next_uuid demo_noon
        (POST_attendance_checkin emp_uuid (None, (0, - 95))) demo_state
       = (Inl (ValidationError [''Latitude must be between -90 and 90'']), demo_state)"
    using south lat by (auto simp: CheckInRequest_init_def)
  have pts: "stored_points (run grid_distance demo_requests init_state)
               = [demo_point 0 0, demo_point 0 (5 / 1000)]"
    by (simp add: demo_state_reachable stored_points_demo)
  from GeoPoint_construction [of _ _ _ grid_distance _ _ _ _ _ demo_requests] pts
  have "- 90 \<le> snd (coordinates (demo_point 0 (5 / 1000)))
        \<and> snd (coordinates (demo_point 0 (5 / 1000))) \<le> 90"
    by simp
  with ok lon lat org att pts show ?thesis by simp
qed

section \<open>The invariant of attendance records\<close>

text \<open>
  Claim C10. After any sequence of requests from the empty storage, and again after
  any further request, every attendance record in the storage has an \<open>organization_id\<close>
  that is set and is the identifier of an organization in the storage, and a
  \<open>distance_meters\<close> that is set and is at most \<open>MAX_CHECKIN_DISTANCE_METERS\<close>.
\<close>

theorem attendance_records_invariant:
  "attendance_invariant (run geodesic requests init_state)
   \<and> attendance_invariant
       (snd (handle geodesic uuid4 utcnow req (run geodesic requests init_state)))"
proof -
  have "store_invariant (run geodesic requests init_state)"
    using init_store by (rule run_store)
  moreover from this
  have "store_invariant
          (snd (handle geodesic uuid4 utcnow req (run geodesic requests init_state)))"
    by (rule handle_store)
  ultimately show ?thesis by (simp add: store_invariant_def)
qed

theorem attendance_records_invariant_witness:
  "run grid_distance demo_requests init_state = demo_state
   \<and> dict_values (attendance_db demo_state) = [demo_attendance]
   \<and> Attendance.organization_id demo_attendance = Some org_uuid
   \<and> dict_get (organizations_db demo_state) org_uuid = Some demo_org
   \<and> Organization.id demo_org = org_uuid
   \<and> Attendance.distance_meters demo_attendance = Some 500
   \<and> (500 :: real) \<le> of_int MAX_CHECKIN_DISTANCE_METERS
   \<and> attendance_ok (organizations_db demo_state) demo_attendance"
proof -
  have records: "dict_values (attendance_db demo_state) = [demo_attendance]"
    by (simp add: demo_state_def dict_values_def)
  from attendance_records_invariant [of grid_distance demo_requests]
  have "attendance_invariant demo_state"
    by (simp add: demo_state_reachable)
  with records have ok: "attendance_ok (organizations_db demo_state) demo_attendance"
    by (simp add: attendance_invariant_def)
  have "Attendance.organization_id demo_attendance = Some org_uuid"
    and "dict_get (organizations_db demo_state) org_uuid = Some demo_org"
    and "Organization.id demo_org = org_uuid"
    and "Attendance.distance_meters demo_attendance = Some 500"
    and "(500 :: real) \<le> of_int MAX_CHECKIN_DISTANCE_METERS"
    by (simp_all add: demo_defs dict_get_def MAX_CHECKIN_DISTANCE_METERS_def)
  with records ok demo_state_reachable show ?thesis by simp
qed

section \<open>The distance between two GeoPoints\<close>




text \<open>
  Claim C5. On the great circle the distance from A to B is the distance from B to A,
  so the two are within 0.01 m of each other; and \<open>calculate_distance_meters\<close> hands
  both points to the distance function in the same way, so it is symmetric for every
  distance function that is.
\<close>

theorem distance_symmetric:
  "calculate_distance_meters great_circle a b = calculate_distance_meters great_circle b a
   \<and> \<bar>calculate_distance_meters great_circle a b
       - calculate_distance_meters great_circle b a\<bar> \<le> 1 / 100
   \<and> ((\<forall>c1 c2. geodesic c1 c2 = geodesic c2 c1) \<longrightarrow>
        calculate_distance_meters geodesic a b = calculate_distance_meters geodesic b a)"
proof -
  have "calculate_distance_meters great_circle a b
          = calculate_distance_meters great_circle b a"
    by (simp add: calculate_distance_meters_def great_circle_commute)
  then show ?thesis
    by (simp add: calculate_distance_meters_def)
qed

theorem distance_symmetric_witness:
  "(\<forall>c1 c2. grid_distance c1 c2 = grid_distance c2 c1)
   \<and> calculate_distance_meters grid_distance (demo_point 0 0) (demo_point 0 (5 / 1000))
       = calculate_distance_meters grid_distance (demo_point 0 (5 / 1000)) (demo_point 0 0)
   \<and> calculate_distance_meters grid_distance (demo_point 0 0) (demo_point 0 (5 / 1000)) = 500"
proof -
  have sym: "\<forall>c1 c2. grid_distance c1 c2 = grid_distance c2 c1"
    by (simp add: grid_distance_def abs_minus_commute)
  with distance_symmetric [of "demo_point 0 0" "demo_point 0 (5 / 1000)" grid_distance]
  have "calculate_distance_meters grid_distance (demo_point 0 0) (demo_point 0 (5 / 1000))
       = calculate_distance_meters grid_distance (demo_point 0 (5 / 1000)) (demo_point 0 0)"
    by blast
  moreover have "calculate_distance_meters grid_distance (demo_point 0 0)
                   (demo_point 0 (5 / 1000)) = 500"
    by (simp add: calculate_distance_meters_def grid_distance_def demo_point_def)
  ultimately show ?thesis using sym by simp
qed

end
